theory Spec2Isabelle
  imports Complex_Main "HOL-Library.Word"
begin

section \<open>Tensors, errors and the kernel context\<close>

text \<open>
  The operator \<open>MatrixAdd\<close> and its gradient \<open>MatrixAddGrad\<close> of
  \<open>matrix_add_op.cc\<close>, embedded function by function. A tensor is the runtime's dense
  row-major buffer: its shape (the dimensions, which the runtime keeps as non-negative
  64-bit values) and its flat view.
\<close>

datatype error = ShapeMismatch | AllocationFailure | CheckFailed | OutOfBounds | Overflow

record 'a Tensor =
  shape :: "nat list"
  flat :: "'a list"

definition NumElements :: "'a Tensor \<Rightarrow> nat" where
  "NumElements t = prod_list (shape t)"

text \<open>The runtime's invariant of a tensor: the buffer holds one element per index.\<close>

definition dense :: "'a Tensor \<Rightarrow> bool" where
  "dense t = (length (flat t) = NumElements t)"

text \<open>
  The kernels read dimensions and element counts into C \<open>int\<close> variables
  (\<open>const int B = matrix_a.shape().dim_size(0)\<close>, \<open>const int N = top_diff.NumElements()\<close>):
  the 64-bit value is narrowed to 32 bits, two's complement.
\<close>

definition to_int :: "nat \<Rightarrow> int" where
  "to_int n = (let m = int n mod 2 ^ 32 in if m < 2 ^ 31 then m else m - 2 ^ 32)"

definition fits_int :: "nat \<Rightarrow> bool" where
  "fits_int n = (n < 2 ^ 31)"

text \<open>
  Raw element access. The kernels index unchecked (Eigen's \<open>operator()\<close> and raw
  pointers); an access outside the buffer is undefined behaviour in C++ and the error
  \<open>OutOfBounds\<close> here.
\<close>

definition load :: "'a list \<Rightarrow> int \<Rightarrow> error + 'a" where
  "load buf i = (if 0 \<le> i \<and> i < int (length buf) then Inr (buf ! nat i) else Inl OutOfBounds)"

definition store :: "'a list \<Rightarrow> int \<Rightarrow> 'a \<Rightarrow> error + 'a list" where
  "store buf i v = (if 0 \<le> i \<and> i < int (length buf) then Inr (buf[nat i := v]) else Inl OutOfBounds)"

text \<open>
  The offset of element \<open>(b, r, c, d)\<close> in the row-major 4-dimensional view
  \<open>tensor<Dtype, 4>()\<close> of a buffer with dimensions \<open>dims\<close>. Eigen computes it in
  its 64-bit index type, from the dimensions of the tensor the view is taken of.
\<close>

definition index4 :: "nat list \<Rightarrow> int \<Rightarrow> int \<Rightarrow> int \<Rightarrow> int \<Rightarrow> int" where
  "index4 dims b r c d =
     ((b * int (dims ! 1) + r) * int (dims ! 2) + c) * int (dims ! 3) + d"

text \<open>\<open>for (int i = lo; i < n; ++i) body\<close>, stopping at the first failing access.\<close>

function for_loop :: "int \<Rightarrow> int \<Rightarrow> (int \<Rightarrow> 's \<Rightarrow> error + 's) \<Rightarrow> 's \<Rightarrow> error + 's" where
  "for_loop i n body s =
     (if i < n
      then (case body i s of Inl e \<Rightarrow> Inl e | Inr s' \<Rightarrow> for_loop (i + 1) n body s')
      else Inr s)"
  by pat_completeness auto
termination
  by (relation "measure (\<lambda>(i, n, body, s). nat (n - i))") auto

declare for_loop.simps [simp del]

text \<open>
  The kernel context: the input tensors, the output slots and the status that
  \<open>OP_REQUIRES_OK\<close> sets before it returns from \<open>Compute\<close>. An output buffer comes
  from the runtime's allocator: \<open>fresh context idx\<close> is \<open>None\<close> when the allocation
  for slot \<open>idx\<close> fails, and otherwise gives the contents the uninitialised memory
  happens to hold, position by position. \<open>context->input(i)\<close> is \<open>inputs context ! i\<close>;
  the registration fixes how many inputs an operator has.
\<close>

record 'a OpKernelContext =
  inputs :: "'a Tensor list"
  fresh :: "nat \<Rightarrow> (nat \<Rightarrow> 'a) option"
  outputs :: "nat \<Rightarrow> 'a Tensor option"
  status :: "error option"

definition new_context :: "'a Tensor list \<Rightarrow> (nat \<Rightarrow> (nat \<Rightarrow> 'a) option) \<Rightarrow> 'a OpKernelContext" where
  "new_context ins mem = \<lparr>inputs = ins, fresh = mem, outputs = (\<lambda>idx. None), status = None\<rparr>"

definition set_output_tensor :: "nat \<Rightarrow> 'a Tensor \<Rightarrow> 'a OpKernelContext \<Rightarrow> 'a OpKernelContext" where
  "set_output_tensor idx t context = context\<lparr>outputs := (outputs context)(idx \<mapsto> t)\<rparr>"

definition allocate_output ::
    "nat \<Rightarrow> nat list \<Rightarrow> 'a OpKernelContext \<Rightarrow> error + ('a Tensor \<times> 'a OpKernelContext)" where
  "allocate_output idx shp context =
     (case fresh context idx of
        None \<Rightarrow> Inl AllocationFailure
      | Some junk \<Rightarrow>
          (let t = \<lparr>shape = shp, flat = map junk [0..<prod_list shp]\<rparr>
           in Inr (t, set_output_tensor idx t context)))"

section \<open>Element arithmetic\<close>

text \<open>
  The kernels are registered for the element types \<open>int\<close>, \<open>float\<close> and \<open>double\<close>
  (lines 251 to 253), and \<open>bias_\<close> is a \<open>float\<close> in each. Line 122 evaluates
  \<open>a + b + bias_\<close> under the usual arithmetic conversions and converts the result to
  \<open>Dtype\<close> on assignment.

  Floating-point values are the IEEE 754 binary formats, values as exact rationals, with
  the two infinities and one NaN (the sign of zero and NaN payloads are not kept). A
  format is its precision \<open>p\<close> in bits and its largest exponent; the smallest normal
  exponent is \<open>1 - emax\<close>. \<open>float\<close> is binary32 and \<open>double\<close> is binary64; each
  operation is evaluated in the format of its type and rounds to nearest, ties to even.
\<close>

datatype fp = Finite rat | PlusInf | MinusInf | NaN

record format =
  precision :: nat
  emax :: int

definition binary32 :: format where
  "binary32 = \<lparr>precision = 24, emax = 127\<rparr>"


definition pow2 :: "int \<Rightarrow> rat" where
  "pow2 e = (if 0 \<le> e then 2 ^ nat e else 1 / 2 ^ nat (- e))"

text \<open>\<open>ilog2 x\<close> is the exponent of a positive \<open>x\<close>: \<open>2 ^ ilog2 x \<le> x < 2 ^ (ilog2 x + 1)\<close>.\<close>

fun ilog2_nat :: "nat \<Rightarrow> nat" where
  "ilog2_nat n = (if n < 2 then 0 else Suc (ilog2_nat (n div 2)))"

definition ilog2 :: "rat \<Rightarrow> int" where
  "ilog2 x =
     (let (a, b) = quotient_of x;
          d = int (ilog2_nat (nat a)) - int (ilog2_nat (nat b))
      in if pow2 d \<le> x then d else d - 1)"

text \<open>The nearest integer, a tie going to the even one.\<close>

definition round_even :: "rat \<Rightarrow> int" where
  "round_even q =
     (let n = \<lfloor>q\<rfloor>; r = q - of_int n
      in if r < 1 / 2 then n else if 1 / 2 < r then n + 1 else if even n then n else n + 1)"

text \<open>
  Rounding a rational to a format: to the nearest multiple of the unit in the last place
  of its binade (of the smallest normal binade for a subnormal), and to an infinity once
  the rounded magnitude reaches \<open>2 ^ (emax + 1)\<close>.
\<close>

definition round_to :: "format \<Rightarrow> rat \<Rightarrow> fp" where
  "round_to fmt x =
     (if x = 0 then Finite 0
      else
        (let e = max (ilog2 \<bar>x\<bar>) (1 - emax fmt);
             ulp = pow2 (e - int (precision fmt) + 1);
             y = of_int (round_even (\<bar>x\<bar> / ulp)) * ulp
         in if pow2 (emax fmt + 1) \<le> y then (if 0 < x then PlusInf else MinusInf)
            else Finite (if 0 < x then y else - y)))"

fun fadd :: "format \<Rightarrow> fp \<Rightarrow> fp \<Rightarrow> fp" where
  "fadd fmt (Finite x) (Finite y) = round_to fmt (x + y)"
| "fadd fmt NaN _ = NaN"
| "fadd fmt _ NaN = NaN"
| "fadd fmt PlusInf MinusInf = NaN"
| "fadd fmt MinusInf PlusInf = NaN"
| "fadd fmt PlusInf _ = PlusInf"
| "fadd fmt _ PlusInf = PlusInf"
| "fadd fmt MinusInf _ = MinusInf"
| "fadd fmt _ MinusInf = MinusInf"


text \<open>
  The expression at the three element types; \<open>None\<close> is undefined behaviour.
  At \<open>float\<close>: both additions in binary32.
  At \<open>double\<close>: \<open>a + b\<close> in binary64, \<open>bias_\<close> converted to \<open>double\<close> (exactly)
  and added in binary64.
  At \<open>int\<close>: \<open>a + b\<close> in \<open>int\<close> (signed overflow is undefined), the sum converted to
  \<open>float\<close>, \<open>bias_\<close> added in binary32, and the result truncated back to \<open>int\<close>.
\<close>

definition add_bias_float :: "fp \<Rightarrow> fp \<Rightarrow> fp \<Rightarrow> fp option" where
  "add_bias_float a b bias = Some (fadd binary32 (fadd binary32 a b) bias)"



text \<open>\<open>setZero\<close> of the gradient kernels writes the zero of the element type.\<close>

instantiation fp :: zero
begin

definition zero_fp :: fp where
  "zero_fp = Finite 0"

instance ..

end

section \<open>Forward pass\<close>

text \<open>
  \<open>TensorShape::AddDim\<close> aborts on a negative size (a \<open>CHECK\<close> of the runtime).
\<close>

definition AddDim :: "int \<Rightarrow> nat list \<Rightarrow> error + nat list" where
  "AddDim sz shp = (if sz < 0 then Inl CheckFailed else Inr (shp @ [nat sz]))"

definition output_shape4 :: "int \<Rightarrow> int \<Rightarrow> int \<Rightarrow> int \<Rightarrow> error + nat list" where
  "output_shape4 B M N D =
     (case AddDim B [] of
        Inl e \<Rightarrow> Inl e
      | Inr s1 \<Rightarrow>
          (case AddDim M s1 of
             Inl e \<Rightarrow> Inl e
           | Inr s2 \<Rightarrow>
               (case AddDim N s2 of
                  Inl e \<Rightarrow> Inl e
                | Inr s3 \<Rightarrow> AddDim D s3)))"

text \<open>
  The kernel classes are templates over \<open>Dtype\<close>: the embedding takes the arithmetic of
  the element type as the argument \<open>add_bias\<close>, which the registered kernels
  instantiate with \<open>add_bias_int\<close>, \<open>add_bias_float\<close> and \<open>add_bias_double\<close>.
  Undefined arithmetic is the error \<open>Overflow\<close>.

  The statement of line 122:
  \<open>out_tensor(b, r, c, d) = matrix_a_tensor(b, r, c, d) + matrix_b_tensor(b, r, c, d) + bias_\<close>.
\<close>

definition MatrixAddOp_assign ::
    "('a \<Rightarrow> 'a \<Rightarrow> fp \<Rightarrow> 'a option) \<Rightarrow> fp \<Rightarrow> 'a Tensor \<Rightarrow> 'a Tensor \<Rightarrow> nat list \<Rightarrow>
     int \<Rightarrow> int \<Rightarrow> int \<Rightarrow> int \<Rightarrow> 'a list \<Rightarrow> error + 'a list" where
  "MatrixAddOp_assign add_bias bias matrix_a matrix_b output_shape b r c d out_tensor =
     (case load (flat matrix_a) (index4 (shape matrix_a) b r c d) of
        Inl e \<Rightarrow> Inl e
      | Inr x \<Rightarrow>
          (case load (flat matrix_b) (index4 (shape matrix_b) b r c d) of
             Inl e \<Rightarrow> Inl e
           | Inr y \<Rightarrow>
               (case add_bias x y bias of
                  None \<Rightarrow> Inl Overflow
                | Some v \<Rightarrow> store out_tensor (index4 output_shape b r c d) v)))"

text \<open>The loop nest of lines 118 to 122.\<close>

definition MatrixAddOp_loops ::
    "('a \<Rightarrow> 'a \<Rightarrow> fp \<Rightarrow> 'a option) \<Rightarrow> fp \<Rightarrow> 'a Tensor \<Rightarrow> 'a Tensor \<Rightarrow> nat list \<Rightarrow>
     int \<Rightarrow> int \<Rightarrow> int \<Rightarrow> int \<Rightarrow> 'a list \<Rightarrow> error + 'a list" where
  "MatrixAddOp_loops add_bias bias matrix_a matrix_b output_shape B M N D =
     for_loop 0 B (\<lambda>b.
       for_loop 0 M (\<lambda>r.
         for_loop 0 N (\<lambda>c.
           for_loop 0 D (\<lambda>d.
             MatrixAddOp_assign add_bias bias matrix_a matrix_b output_shape b r c d))))"

text \<open>
  \<open>MatrixAddOp<Device, Dtype>::Compute\<close>, the CPU kernel. \<open>tensor<Dtype, 4>()\<close>
  aborts unless the tensor has four dimensions.
\<close>

definition MatrixAddOp_CPU_Compute ::
    "('a \<Rightarrow> 'a \<Rightarrow> fp \<Rightarrow> 'a option) \<Rightarrow> fp \<Rightarrow> 'a OpKernelContext \<Rightarrow> 'a OpKernelContext" where
  "MatrixAddOp_CPU_Compute add_bias bias context =
     (let matrix_a = inputs context ! 0;
          matrix_b = inputs context ! 1
      in if length (shape matrix_a) \<noteq> 4 \<or> length (shape matrix_b) \<noteq> 4
         then context\<lparr>status := Some CheckFailed\<rparr>
         else
           (let B = to_int (shape matrix_a ! 0);
                M = to_int (shape matrix_a ! 1);
                N = to_int (shape matrix_a ! 2);
                D = to_int (shape matrix_a ! 3)
            in case output_shape4 B M N D of
                 Inl e \<Rightarrow> context\<lparr>status := Some e\<rparr>
               | Inr output_shape \<Rightarrow>
                   (case allocate_output 0 output_shape context of
                      Inl e \<Rightarrow> context\<lparr>status := Some e\<rparr>
                    | Inr (out, context') \<Rightarrow>
                        (case MatrixAddOp_loops add_bias bias matrix_a matrix_b output_shape
                                B M N D (flat out) of
                           Inl e \<Rightarrow> context'\<lparr>status := Some e\<rparr>
                         | Inr buf \<Rightarrow> set_output_tensor 0 (out\<lparr>flat := buf\<rparr>) context'))))"



section \<open>Backward pass\<close>

text \<open>\<open>flat<Dtype>().setZero()\<close> on an output tensor.\<close>

definition setZero :: "'a::zero Tensor \<Rightarrow> 'a Tensor" where
  "setZero t = t\<lparr>flat := replicate (length (flat t)) 0\<rparr>"

text \<open>
  Lines 186 to 195 of the CPU gradient kernel: both outputs are allocated with the shape
  of \<open>features\<close> (input 1) and zeroed. The result is the failed context, or the two
  output tensors the raw pointers refer to and the context that owns them.
\<close>

definition MatrixAddGradOp_CPU_outputs ::
    "'a::zero OpKernelContext \<Rightarrow> 'a OpKernelContext + ('a Tensor \<times> 'a Tensor \<times> 'a OpKernelContext)" where
  "MatrixAddGradOp_CPU_outputs context =
     (let features = inputs context ! 1
      in case allocate_output 0 (shape features) context of
           Inl e \<Rightarrow> Inl (context\<lparr>status := Some e\<rparr>)
         | Inr (t0, context0) \<Rightarrow>
             (let matrix_a_grad = setZero t0;
                  context1 = set_output_tensor 0 matrix_a_grad context0
              in case allocate_output 1 (shape features) context1 of
                   Inl e \<Rightarrow> Inl (context1\<lparr>status := Some e\<rparr>)
                 | Inr (t1, context2) \<Rightarrow>
                     (let matrix_b_grad = setZero t1
                      in Inr (matrix_a_grad, matrix_b_grad,
                              set_output_tensor 1 matrix_b_grad context2))))"

text \<open>The fill loop of lines 197 to 200, on the two raw output pointers.\<close>

definition MatrixAddGradOp_fill ::
    "'a list \<Rightarrow> int \<Rightarrow> 'a list \<times> 'a list \<Rightarrow> error + 'a list \<times> 'a list" where
  "MatrixAddGradOp_fill topdiff_ptr N =
     for_loop 0 N (\<lambda>i (matrix_a_grad_ptr, matrix_b_grad_ptr).
       case load topdiff_ptr i of
         Inl e \<Rightarrow> Inl e
       | Inr x \<Rightarrow>
           (case store matrix_a_grad_ptr i x of
              Inl e \<Rightarrow> Inl e
            | Inr ga \<Rightarrow>
                (case load topdiff_ptr i of
                   Inl e \<Rightarrow> Inl e
                 | Inr y \<Rightarrow>
                     (case store matrix_b_grad_ptr i y of
                        Inl e \<Rightarrow> Inl e
                      | Inr gb \<Rightarrow> Inr (ga, gb)))))"

text \<open>\<open>MatrixAddGradOp<Device, Dtype>::Compute\<close>, the CPU gradient kernel.\<close>

definition MatrixAddGradOp_CPU_Compute :: "'a::zero OpKernelContext \<Rightarrow> 'a OpKernelContext" where
  "MatrixAddGradOp_CPU_Compute context =
     (let top_diff = inputs context ! 0;
          N = to_int (NumElements top_diff);
          topdiff_ptr = flat top_diff
      in case MatrixAddGradOp_CPU_outputs context of
           Inl failed \<Rightarrow> failed
         | Inr (matrix_a_grad, matrix_b_grad, context') \<Rightarrow>
             (case MatrixAddGradOp_fill topdiff_ptr N (flat matrix_a_grad, flat matrix_b_grad) of
                Inl e \<Rightarrow> context'\<lparr>status := Some e\<rparr>
              | Inr (ga, gb) \<Rightarrow>
                  set_output_tensor 1 (matrix_b_grad\<lparr>flat := gb\<rparr>)
                    (set_output_tensor 0 (matrix_a_grad\<lparr>flat := ga\<rparr>) context')))"

text \<open>
  Lines 217 to 226 of the GPU gradient dispatcher: the first output is allocated with the
  shape of \<open>matrix_a\<close>, the second with the shape of \<open>matrix_b\<close>, and the buffers go
  to the launcher as the allocator returned them.
\<close>

definition MatrixAddGradOp_GPU_outputs ::
    "'a OpKernelContext \<Rightarrow> 'a OpKernelContext + ('a Tensor \<times> 'a Tensor \<times> 'a OpKernelContext)" where
  "MatrixAddGradOp_GPU_outputs context =
     (let matrix_a = inputs context ! 1;
          matrix_b = inputs context ! 2
      in case allocate_output 0 (shape matrix_a) context of
           Inl e \<Rightarrow> Inl (context\<lparr>status := Some e\<rparr>)
         | Inr (grad_matrix_a, context0) \<Rightarrow>
             (case allocate_output 1 (shape matrix_b) context0 of
                Inl e \<Rightarrow> Inl (context0\<lparr>status := Some e\<rparr>)
              | Inr (grad_matrix_b, context1) \<Rightarrow> Inr (grad_matrix_a, grad_matrix_b, context1)))"



section \<open>Registration and shape inference\<close>

text \<open>
  Modelled from the spec: the runtime's shape-inference context and its operations
  \<open>WithRank\<close>, \<open>Merge\<close>, \<open>Dim\<close>, \<open>MakeShape\<close> and \<open>set_output\<close> are not among the
  sources. The shape function's own comments say what it uses them for
  (\<open>we require the input to have 4 axes\<close>, \<open>assert shapes of matrix_a and matrix_b are
  matching\<close>), and section 4.1 of the spec gives the contract on the shape descriptors of its data
  model (section 3: a shape of fixed rank with its dimensions): a rank other than the
  required one and dimensions that are not equal pairwise are a \<open>ShapeMismatch\<close>.
  Shapes whose rank or dimensions are not yet known at graph construction are outside
  this model.
\<close>

record InferenceContext =
  shape_input :: "nat list list"
  shape_output :: "nat \<Rightarrow> nat list option"

definition WithRank :: "nat list \<Rightarrow> nat \<Rightarrow> error + nat list" where
  "WithRank s rank = (if length s = rank then Inr s else Inl ShapeMismatch)"

definition Merge :: "nat list \<Rightarrow> nat list \<Rightarrow> error + nat list" where
  "Merge s0 s1 = (if list_all2 (=) s0 s1 then Inr s0 else Inl ShapeMismatch)"

definition Dim :: "nat list \<Rightarrow> nat \<Rightarrow> nat" where
  "Dim s i = s ! i"

definition MakeShape :: "nat list \<Rightarrow> nat list" where
  "MakeShape dims = dims"

definition set_output :: "nat \<Rightarrow> nat list \<Rightarrow> InferenceContext \<Rightarrow> InferenceContext" where
  "set_output idx s c = c\<lparr>shape_output := (shape_output c)(idx \<mapsto> s)\<rparr>"

text \<open>
  The shape function of \<open>REGISTER_OP("MatrixAdd")\<close>, lines 25 to 52. The value of the
  \<open>bias\<close> attribute it reads at the end is not used.
\<close>

definition MatrixAdd_ShapeFn :: "InferenceContext \<Rightarrow> error + InferenceContext" where
  "MatrixAdd_ShapeFn c =
     (case WithRank (shape_input c ! 0) 4 of
        Inl e \<Rightarrow> Inl e
      | Inr shape_hnd \<Rightarrow>
          (case WithRank (shape_input c ! 1) 4 of
             Inl e \<Rightarrow> Inl e
           | Inr shape_hnd' \<Rightarrow>
               (let matrix_a_shape = shape_input c ! 0;
                    matrix_b_shape = shape_input c ! 1
                in case Merge matrix_a_shape matrix_b_shape of
                     Inl e \<Rightarrow> Inl e
                   | Inr merged \<Rightarrow>
                       (let B = Dim (shape_input c ! 0) 0;
                            M = Dim (shape_input c ! 0) 1;
                            N = Dim (shape_input c ! 0) 2;
                            D = Dim (shape_input c ! 0) 3
                        in Inr (set_output 0 (MakeShape [B, M, N, D]) c)))))"

text \<open>
  The two \<open>REGISTER_OP\<close> entries: name, attributes, inputs, outputs and the shape
  function, if one is set.
\<close>

record OpDef =
  op_name :: string
  op_attrs :: "string list"
  op_inputs :: "string list"
  op_outputs :: "string list"
  shape_fn :: "(InferenceContext \<Rightarrow> error + InferenceContext) option"

definition MatrixAdd_op :: OpDef where
  "MatrixAdd_op =
     \<lparr>op_name = ''MatrixAdd'',
      op_attrs = [''bias: float'', ''T: realnumbertype''],
      op_inputs = [''matrix_a: T'', ''matrix_b: T''],
      op_outputs = [''output: T''],
      shape_fn = Some MatrixAdd_ShapeFn\<rparr>"

definition MatrixAddGrad_op :: OpDef where
  "MatrixAddGrad_op =
     \<lparr>op_name = ''MatrixAddGrad'',
      op_attrs = [''bias: float'', ''T: realnumbertype''],
      op_inputs = [''gradients: T'', ''matrix_a: T'', ''matrix_b: T''],
      op_outputs = [''grad_matrix_a: T'', ''grad_matrix_b: T''],
      shape_fn = None\<rparr>"

text \<open>
  Modelled from the spec: the host runtime is not among the sources. Section 6 has the
  shape-inference callback invoked once per graph construction to validate the input
  shapes and compute the output shape; an operator registered without one has nothing
  to invoke. Section 2 gives the data flow: the validator runs first, then the
  dispatcher allocates the output and the kernel computes into it.
\<close>

definition infer_shapes :: "OpDef \<Rightarrow> nat list list \<Rightarrow> error + InferenceContext" where
  "infer_shapes opdef ins =
     (let c = \<lparr>shape_input = ins, shape_output = (\<lambda>idx. None)\<rparr>
      in case shape_fn opdef of None \<Rightarrow> Inr c | Some f \<Rightarrow> f c)"

definition run_op ::
    "OpDef \<Rightarrow> ('a OpKernelContext \<Rightarrow> 'a OpKernelContext) \<Rightarrow> 'a OpKernelContext \<Rightarrow> 'a OpKernelContext" where
  "run_op opdef Compute context =
     (case infer_shapes opdef (map shape (inputs context)) of
        Inl e \<Rightarrow> context\<lparr>status := Some e\<rparr>
      | Inr c \<Rightarrow> Compute context)"

section \<open>What the claims speak of\<close>




section \<open>Example inputs\<close>

text \<open>
  The example of the spec's section 8: a tensor of shape \<open>[1, 1, 1, 3]\<close> filled with
  ones, and an allocator that always succeeds and hands out memory holding stale sevens.
\<close>

definition ones :: "real Tensor" where
  "ones = \<lparr>shape = [1, 1, 1, 3], flat = [1, 1, 1]\<rparr>"

definition stale :: "nat \<Rightarrow> (nat \<Rightarrow> real) option" where
  "stale idx = Some (\<lambda>i. 7)"

text \<open>A smaller tensor, and an allocator whose second allocation fails.\<close>

definition short :: "real Tensor" where
  "short = \<lparr>shape = [1, 1, 1, 2], flat = [3, 4]\<rparr>"


text \<open>The same at the element types \<open>float\<close> (or \<open>double\<close>) and \<open>int\<close>.\<close>

definition ones_f :: "fp Tensor" where
  "ones_f = \<lparr>shape = [1, 1, 1, 3], flat = [Finite 1, Finite 1, Finite 1]\<rparr>"

definition short_f :: "fp Tensor" where
  "short_f = \<lparr>shape = [1, 1, 1, 2], flat = [Finite 3, Finite 4]\<rparr>"

definition stale_f :: "nat \<Rightarrow> (nat \<Rightarrow> fp) option" where
  "stale_f idx = Some (\<lambda>i. Finite 7)"






text \<open>
  Tensors past the range of \<open>int\<close>: \<open>2 ^ 32\<close> elements in one row, \<open>2 ^ 31\<close>
  elements as \<open>2 ^ 16\<close> by \<open>2 ^ 15\<close>, and an empty tensor whose first dimension is
  \<open>2 ^ 32\<close>.
\<close>

definition huge :: "real Tensor" where
  "huge = \<lparr>shape = [4294967296, 1, 1, 1], flat = replicate 4294967296 1\<rparr>"




section \<open>Loop invariants\<close>

text \<open>
  One step of a sweep that stores the value \<open>val k\<close> at position \<open>k\<close>, stopping when
  the value is an error.
\<close>

definition sweep :: "(int \<Rightarrow> error + 'a) \<Rightarrow> int \<Rightarrow> 'a list \<Rightarrow> error + 'a list" where
  "sweep val k buf = (case val k of Inl e \<Rightarrow> Inl e | Inr v \<Rightarrow> store buf k v)"



lemma to_int_fits: "fits_int n \<Longrightarrow> to_int n = int n"
  by (simp add: to_int_def fits_int_def Let_def)

section \<open>Loops\<close>


lemma for_loop_rule:
  assumes "I i s" and "i \<le> n"
    and step: "\<And>j t. i \<le> j \<Longrightarrow> j < n \<Longrightarrow> I j t \<Longrightarrow> \<exists>t'. body j t = Inr t' \<and> I (j + 1) t'"
  shows "\<exists>s'. for_loop i n body s = Inr s' \<and> I n s'"
  using assms
proof (induction i n body s rule: for_loop.induct)
  case (1 i n body s)
  show ?case
  proof (cases "i < n")
    case True
    from "1.prems"(3)[of i s] True "1.prems"(1) obtain t where t: "body i s = Inr t" "I (i + 1) t"
      by auto
    have "\<exists>s'. for_loop (i + 1) n body t = Inr s' \<and> I n s'"
    proof (rule "1.IH"[OF True t(1) t(2)])
      show "i + 1 \<le> n" using True by simp
      show "\<exists>t'. body j u = Inr t' \<and> I (j + 1) t'" if "i + 1 \<le> j" "j < n" "I j u" for j u
        using "1.prems"(3)[of j u] that by simp
    qed
    then show ?thesis
      using True t(1) by (subst for_loop.simps) simp
  next
    case False
    with "1.prems"(2) have "i = n" by simp
    then show ?thesis
      using "1.prems"(1) by (subst for_loop.simps) simp
  qed
qed

lemma for_loop_stops:
  assumes "I i s" and "i \<le> k" and "k < n"
    and step: "\<And>j t. i \<le> j \<Longrightarrow> j < k \<Longrightarrow> I j t \<Longrightarrow> \<exists>t'. body j t = Inr t' \<and> I (j + 1) t'"
    and stop: "\<And>t. I k t \<Longrightarrow> body k t = Inl e"
  shows "for_loop i n body s = Inl e"
  using assms
proof (induction i n body s rule: for_loop.induct)
  case (1 i n body s)
  have lt: "i < n" using "1.prems"(2,3) by simp
  show ?case
  proof (cases "i = k")
    case True
    then have "body i s = Inl e" using "1.prems"(1,5) by simp
    then show ?thesis using lt by (subst for_loop.simps) simp
  next
    case False
    then have ik: "i < k" using "1.prems"(2) by simp
    from "1.prems"(4)[of i s] ik "1.prems"(1) obtain t where t: "body i s = Inr t" "I (i + 1) t"
      by auto
    have "for_loop (i + 1) n body t = Inl e"
    proof (rule "1.IH"[OF lt t(1) t(2)])
      show "i + 1 \<le> k" using ik by simp
      show "k < n" by (rule "1.prems"(3))
      show "\<exists>t'. body j u = Inr t' \<and> I (j + 1) t'" if "i + 1 \<le> j" "j < k" "I j u" for j u
        using "1.prems"(4)[of j u] that by simp
      show "body k u = Inl e" if "I k u" for u
        using "1.prems"(5) that by simp
    qed
    then show ?thesis
      using lt t(1) by (subst for_loop.simps) simp
  qed
qed

lemma row_major_range:
  fixes a r :: int and X M :: nat
  assumes "0 \<le> a" "a < int X" "0 \<le> r" "r < int M"
  shows "0 \<le> a * int M + r \<and> a * int M + r < int (X * M)"
proof -
  have "a + 1 \<le> int X" using assms(2) by simp
  then have "(a + 1) * int M \<le> int X * int M"
    by (rule mult_right_mono) simp
  then have "a * int M + int M \<le> int X * int M"
    by (simp add: algebra_simps)
  then have "a * int M + r < int (X * M)" using assms(4) by simp
  moreover have "0 \<le> a * int M" using assms(1) by simp
  ultimately show ?thesis using assms(3) by simp
qed

lemma index4_range:
  fixes b r c d :: int and B M N D :: nat
  assumes "0 \<le> b" "b < int B" "0 \<le> r" "r < int M" "0 \<le> c" "c < int N" "0 \<le> d" "d < int D"
  shows "0 \<le> index4 [B, M, N, D] b r c d \<and> index4 [B, M, N, D] b r c d < int (B * M * N * D)"
proof -
  have 1: "0 \<le> b * int M + r \<and> b * int M + r < int (B * M)"
    by (rule row_major_range) (use assms in auto)
  have 2: "0 \<le> (b * int M + r) * int N + c \<and> (b * int M + r) * int N + c < int (B * M * N)"
    by (rule row_major_range) (use 1 assms in auto)
  have 3: "0 \<le> ((b * int M + r) * int N + c) * int D + d
      \<and> ((b * int M + r) * int N + c) * int D + d < int (B * M * N * D)"
    by (rule row_major_range) (use 2 assms in auto)
  then show ?thesis by (simp add: index4_def)
qed

lemma shape4_cases:
  assumes "length (s :: nat list) = 4"
  obtains B M N D where "s = [B, M, N, D]"
proof -
  from assms obtain B s1 where 1: "s = B # s1" "length s1 = 3" by (cases s) auto
  then obtain M s2 where 2: "s1 = M # s2" "length s2 = 2" by (cases s1) auto
  then obtain N s3 where 3: "s2 = N # s3" "length s3 = 1" by (cases s2) auto
  then obtain D where 4: "s3 = [D]" by (cases s3) auto
  show ?thesis using that 1 2 3 4 by simp
qed


lemma for_loop_step:
  "i < n \<Longrightarrow> for_loop i n body s =
     (case body i s of Inl e \<Rightarrow> Inl e | Inr s' \<Rightarrow> for_loop (i + 1) n body s')"
  by (subst for_loop.simps) simp

lemma for_loop_empty: "n \<le> i \<Longrightarrow> for_loop i n body s = Inr s"
  by (subst for_loop.simps) simp






text \<open>A loop ends in an error some step raised, or with the invariant at the bound.\<close>

lemma for_loop_cases:
  assumes "I i s" and "i \<le> n"
    and step: "\<And>j t. i \<le> j \<Longrightarrow> j < n \<Longrightarrow> I j t \<Longrightarrow>
            (case body j t of Inl e \<Rightarrow> Q j e | Inr t' \<Rightarrow> I (j + 1) t')"
  shows "case for_loop i n body s of Inl e \<Rightarrow> (\<exists>j. i \<le> j \<and> j < n \<and> Q j e) | Inr s' \<Rightarrow> I n s'"
  using assms
proof (induction i n body s rule: for_loop.induct)
  case (1 i n body s)
  show ?case
  proof (cases "i < n")
    case True
    show ?thesis
    proof (cases "body i s")
      case (Inl e)
      then have "Q i e" using "1.prems"(3)[of i s] True "1.prems"(1) by simp
      then have "\<exists>j. i \<le> j \<and> j < n \<and> Q j e"
        using True by (intro exI[of _ i]) simp
      then show ?thesis
        using Inl by (simp add: for_loop_step[OF True, of body s])
    next
      case (Inr t)
      then have t: "I (i + 1) t" using "1.prems"(3)[of i s] True "1.prems"(1) by simp
      have "case for_loop (i + 1) n body t of
              Inl e \<Rightarrow> (\<exists>j. i + 1 \<le> j \<and> j < n \<and> Q j e) | Inr s' \<Rightarrow> I n s'"
      proof (rule "1.IH"[OF True Inr t])
        show "i + 1 \<le> n" using True by simp
        show "case body j u of Inl e \<Rightarrow> Q j e | Inr t' \<Rightarrow> I (j + 1) t'"
          if "i + 1 \<le> j" "j < n" "I j u" for j u
          using "1.prems"(3)[of j u] that by simp
      qed
      then show ?thesis
        unfolding for_loop_step[OF True, of body s] Inr
      proof (cases "for_loop (i + 1) n body t")
        case (Inl e)
        assume "case for_loop (i + 1) n body t of
            Inl e \<Rightarrow> \<exists>j. i + 1 \<le> j \<and> j < n \<and> Q j e | Inr s' \<Rightarrow> I n s'"
        with Inl obtain j where "i + 1 \<le> j" "j < n" "Q j e" by auto
        then have "\<exists>j. i \<le> j \<and> j < n \<and> Q j e"
          by (intro exI[of _ j]) simp
        with Inl show "case (case Inr t of Inl e \<Rightarrow> Inl e | Inr s' \<Rightarrow> for_loop (i + 1) n body s') of
            Inl e \<Rightarrow> \<exists>j. i \<le> j \<and> j < n \<and> Q j e | Inr s' \<Rightarrow> I n s'"
          by simp
      next
        case (Inr u)
        assume "case for_loop (i + 1) n body t of
            Inl e \<Rightarrow> \<exists>j. i + 1 \<le> j \<and> j < n \<and> Q j e | Inr s' \<Rightarrow> I n s'"
        with Inr show "case (case Inr t of Inl e \<Rightarrow> Inl e | Inr s' \<Rightarrow> for_loop (i + 1) n body s') of
            Inl e \<Rightarrow> \<exists>j. i \<le> j \<and> j < n \<and> Q j e | Inr s' \<Rightarrow> I n s'"
          by simp
      qed
    qed
  next
    case False
    with "1.prems"(2) have "i = n" by simp
    then show ?thesis
      using "1.prems"(1) by (subst for_loop.simps) simp
  qed
qed

section \<open>Sweeps\<close>

lemma sweep_cases:
  assumes "length buf = n"
  shows "case for_loop 0 (int n) (sweep val) buf of
           Inl e \<Rightarrow> (\<exists>k<n. val (int k) = Inl e \<and> (\<forall>j<k. \<exists>v. val (int j) = Inr v))
         | Inr buf' \<Rightarrow> length buf' = n \<and> (\<forall>k<n. val (int k) = Inr (buf' ! k))"
proof -
  define I where "I = (\<lambda>(j::int) t. length t = n \<and> 0 \<le> j \<and> j \<le> int n
      \<and> (\<forall>k<nat j. val (int k) = Inr (t ! k)))"
  define Q where "Q = (\<lambda>(j::int) e. 0 \<le> j \<and> val j = Inl e \<and> (\<forall>k<nat j. \<exists>v. val (int k) = Inr v))"
  have step: "case sweep val j t of Inl e \<Rightarrow> Q j e | Inr t' \<Rightarrow> I (j + 1) t'"
    if "0 \<le> j" "j < int n" "I j t" for j t
  proof (cases "val j")
    case (Inl e)
    then show ?thesis
      using that by (auto simp: sweep_def Q_def I_def)
  next
    case (Inr v)
    from that have len: "length t = n" and pre: "\<And>k. k < nat j \<Longrightarrow> val (int k) = Inr (t ! k)"
      by (auto simp: I_def)
    have "val (int k) = Inr (t[nat j := v] ! k)" if "k < nat (j + 1)" for k
    proof (cases "k = nat j")
      case True
      then show ?thesis using Inr len \<open>0 \<le> j\<close> \<open>j < int n\<close> by simp
    next
      case False
      then have "k < nat j" using that \<open>0 \<le> j\<close> by linarith
      then show ?thesis using pre False by simp
    qed
    then show ?thesis
      using Inr len that(1,2) by (simp add: sweep_def store_def I_def)
  qed
  have "case for_loop 0 (int n) (sweep val) buf of
          Inl e \<Rightarrow> (\<exists>j. 0 \<le> j \<and> j < int n \<and> Q j e) | Inr s' \<Rightarrow> I (int n) s'"
    by (rule for_loop_cases) (use assms step in \<open>auto simp: I_def\<close>)
  moreover have "\<exists>k<n. val (int k) = Inl e \<and> (\<forall>j<k. \<exists>v. val (int j) = Inr v)"
    if "0 \<le> j" "j < int n" "Q j e" for j e
    using that by (intro exI[of _ "nat j"]) (simp add: Q_def)
  ultimately show ?thesis
    by (auto simp: I_def split: sum.splits)
qed


lemma sweep_values:
  assumes "length buf = n" and "\<forall>k<n. val (int k) = Inr (g k)"
  shows "for_loop 0 (int n) (sweep val) buf = Inr (map g [0..<n])"
proof (cases "for_loop 0 (int n) (sweep val) buf")
  case (Inl e)
  with sweep_cases[OF assms(1), of val] assms(2) show ?thesis by auto
next
  case (Inr b)
  with sweep_cases[OF assms(1), of val] assms(2) have "length b = n" "\<forall>k<n. b ! k = g k"
    by auto
  then have "b = map g [0..<n]"
    by (auto intro!: nth_equalityI)
  with Inr show ?thesis by simp
qed



section \<open>The forward kernels as sweeps\<close>






section \<open>What the forward kernels compute\<close>






lemma output_shape4_Inl:
  assumes "output_shape4 B M N D = Inl e"
  shows "e = CheckFailed"
  using assms by (auto simp: output_shape4_def AddDim_def split: if_splits)




section \<open>What the gradient kernels compute\<close>

lemma fill_step:
  assumes "i < length top_ptr" "i < length ga"
  shows "(take i top_ptr @ drop i ga)[i := top_ptr ! i] = take (Suc i) top_ptr @ drop (Suc i) ga"
proof -
  have "drop i ga = ga ! i # drop (Suc i) ga"
    using assms(2) by (simp add: Cons_nth_drop_Suc)
  moreover have "length (take i top_ptr) = i"
    using assms(1) by simp
  ultimately show ?thesis
    using assms(1) by (simp add: list_update_append take_Suc_conv_app_nth)
qed

lemma MatrixAddGradOp_fill_result:
  assumes "length ga = m" "length gb = m" "length top_ptr = k" "k \<le> m"
  shows "MatrixAddGradOp_fill top_ptr (int k) (ga, gb)
         = Inr (top_ptr @ drop k ga, top_ptr @ drop k gb)"
proof -
  define I where "I = (\<lambda>(i::int) (a, b). 0 \<le> i \<and> i \<le> int k
      \<and> a = take (nat i) top_ptr @ drop (nat i) ga
      \<and> b = take (nat i) top_ptr @ drop (nat i) gb)"
  let ?body = "\<lambda>i (matrix_a_grad_ptr, matrix_b_grad_ptr).
       case load top_ptr i of
         Inl e \<Rightarrow> Inl e
       | Inr x \<Rightarrow>
           (case store matrix_a_grad_ptr i x of
              Inl e \<Rightarrow> Inl e
            | Inr ga \<Rightarrow>
                (case load top_ptr i of
                   Inl e \<Rightarrow> Inl e
                 | Inr y \<Rightarrow>
                     (case store matrix_b_grad_ptr i y of
                        Inl e \<Rightarrow> Inl e
                      | Inr gb \<Rightarrow> Inr (ga, gb))))"
  have step: "\<exists>t'. ?body j t = Inr t' \<and> I (j + 1) t'" if "0 \<le> j" "j < int k" "I j t" for j t
  proof -
    obtain a b where t: "t = (a, b)" by (cases t)
    from that(3) t have a: "a = take (nat j) top_ptr @ drop (nat j) ga"
      and b: "b = take (nat j) top_ptr @ drop (nat j) gb"
      by (simp_all add: I_def)
    have j: "nat j < k" "nat (j + 1) = Suc (nat j)" using that(1,2) by simp_all
    have la: "length a = m" and lb: "length b = m"
      using a b assms j by simp_all
    have "?body j t = Inr (a[nat j := top_ptr ! nat j], b[nat j := top_ptr ! nat j])"
      using that(1,2) la lb assms by (simp add: t load_def store_def)
    moreover have "a[nat j := top_ptr ! nat j] = take (Suc (nat j)) top_ptr @ drop (Suc (nat j)) ga"
      unfolding a by (rule fill_step) (use j assms in simp_all)
    moreover have "b[nat j := top_ptr ! nat j] = take (Suc (nat j)) top_ptr @ drop (Suc (nat j)) gb"
      unfolding b by (rule fill_step) (use j assms in simp_all)
    ultimately show ?thesis
      using that(1,2) j by (simp add: I_def)
  qed
  have "\<exists>t'. for_loop 0 (int k) ?body (ga, gb) = Inr t' \<and> I (int k) t'"
    by (rule for_loop_rule[where I = I]) (use step in \<open>auto simp: I_def\<close>)
  then show ?thesis
    using assms by (auto simp: MatrixAddGradOp_fill_def I_def)
qed

lemma MatrixAddGradOp_fill_overrun:
  assumes "length ga = m" "length gb = m" "length top_ptr = k" "m < k"
  shows "MatrixAddGradOp_fill top_ptr (int k) (ga, gb) = Inl OutOfBounds"
proof -
  define I where "I = (\<lambda>(i::int) (a :: 'a list, b :: 'a list). length a = m \<and> length b = m)"
  let ?body = "\<lambda>i (matrix_a_grad_ptr, matrix_b_grad_ptr).
       case load top_ptr i of
         Inl e \<Rightarrow> Inl e
       | Inr x \<Rightarrow>
           (case store matrix_a_grad_ptr i x of
              Inl e \<Rightarrow> Inl e
            | Inr ga \<Rightarrow>
                (case load top_ptr i of
                   Inl e \<Rightarrow> Inl e
                 | Inr y \<Rightarrow>
                     (case store matrix_b_grad_ptr i y of
                        Inl e \<Rightarrow> Inl e
                      | Inr gb \<Rightarrow> Inr (ga, gb))))"
  have "for_loop 0 (int k) ?body (ga, gb) = Inl OutOfBounds"
  proof (rule for_loop_stops[where I = I and k = "int m"])
    show "I 0 (ga, gb)" using assms by (simp add: I_def)
    show "0 \<le> int m" by simp
    show "int m < int k" using assms by simp
    show "\<exists>t'. ?body j t = Inr t' \<and> I (j + 1) t'" if "0 \<le> j" "j < int m" "I j t" for j t
      using that assms by (cases t) (simp add: I_def load_def store_def)
    show "?body (int m) t = Inl OutOfBounds" if "I (int m) t" for t
      using that assms by (cases t) (simp add: I_def load_def store_def)
  qed
  then show ?thesis
    by (simp add: MatrixAddGradOp_fill_def)
qed


lemma MatrixAddGradOp_CPU_outputs_result:
  "MatrixAddGradOp_CPU_outputs context =
     (let features = inputs context ! 1;
          Z = \<lparr>shape = shape features, flat = replicate (NumElements features) 0\<rparr>
      in case fresh context 0 of
           None \<Rightarrow> Inl (context\<lparr>status := Some AllocationFailure\<rparr>)
         | Some junk0 \<Rightarrow>
             (case fresh context 1 of
                None \<Rightarrow> Inl ((set_output_tensor 0 Z context)\<lparr>status := Some AllocationFailure\<rparr>)
              | Some junk1 \<Rightarrow>
                  Inr (Z, Z, set_output_tensor 1 Z (set_output_tensor 0 Z context))))"
  by (simp add: MatrixAddGradOp_CPU_outputs_def allocate_output_def setZero_def
      set_output_tensor_def NumElements_def Let_def split: option.splits)

lemma MatrixAddGradOp_CPU_Compute_result:
  assumes ins: "inputs context = G # A # rest"
    and dG: "dense G"
    and fits: "fits_int (NumElements G)"
  shows "MatrixAddGradOp_CPU_Compute context =
     (let Z = \<lparr>shape = shape A, flat = replicate (NumElements A) 0\<rparr>;
          T = \<lparr>shape = shape A, flat = flat G @ replicate (NumElements A - NumElements G) 0\<rparr>
      in case fresh context 0 of
           None \<Rightarrow> context\<lparr>status := Some AllocationFailure\<rparr>
         | Some junk0 \<Rightarrow>
             (case fresh context 1 of
                None \<Rightarrow> (set_output_tensor 0 Z context)\<lparr>status := Some AllocationFailure\<rparr>
              | Some junk1 \<Rightarrow>
                  if NumElements G \<le> NumElements A
                  then set_output_tensor 1 T (set_output_tensor 0 T context)
                  else (set_output_tensor 1 Z (set_output_tensor 0 Z context))
                         \<lparr>status := Some OutOfBounds\<rparr>))"
proof -
  let ?z = "replicate (NumElements A) (0 :: 'a)"
  have len: "length (flat G) = NumElements G"
    using dG by (simp add: dense_def)
  have ok: "MatrixAddGradOp_fill (flat G) (int (NumElements G)) (?z, ?z)
      = Inr (flat G @ replicate (NumElements A - NumElements G) 0,
             flat G @ replicate (NumElements A - NumElements G) 0)"
    if "NumElements G \<le> NumElements A"
    using MatrixAddGradOp_fill_result[of ?z "NumElements A" ?z "flat G" "NumElements G"] that len
    by simp
  have bad: "MatrixAddGradOp_fill (flat G) (int (NumElements G)) (?z, ?z) = Inl OutOfBounds"
    if "\<not> NumElements G \<le> NumElements A"
    using MatrixAddGradOp_fill_overrun[of ?z "NumElements A" ?z "flat G" "NumElements G"] that len
    by simp
  show ?thesis
    by (simp add: MatrixAddGradOp_CPU_Compute_def MatrixAddGradOp_CPU_outputs_result
        ins to_int_fits[OF fits] ok bad Let_def set_output_tensor_def split: option.splits)
qed


section \<open>The forward operator\<close>


















section \<open>The gradient operator\<close>

text \<open>
  An element count of \<open>G\<close> that the kernel's \<open>int N\<close> (line 182) holds as zero or
  as a negative number: the fill loop does not run and both outputs stay zero.
\<close>

lemma MatrixAddGradOp_CPU_Compute_no_iterations:
  assumes "to_int (NumElements G) \<le> 0" and "mem 0 = Some junk" and "mem 1 = Some junk'"
  shows "MatrixAddGradOp_CPU_Compute (new_context [G, A, B] mem)
         = set_output_tensor 1 \<lparr>shape = shape A, flat = replicate (NumElements A) 0\<rparr>
             (set_output_tensor 0 \<lparr>shape = shape A, flat = replicate (NumElements A) 0\<rparr>
               (new_context [G, A, B] mem))"
proof -
  have fill: "MatrixAddGradOp_fill xs (to_int (NumElements G)) p = Inr p" for xs :: "'a list" and p
    using assms(1) by (simp add: MatrixAddGradOp_fill_def for_loop_empty)
  have c: "inputs (new_context [G, A, B] mem) ! 1 = A" "inputs (new_context [G, A, B] mem) ! 0 = G"
    "fresh (new_context [G, A, B] mem) 0 = Some junk"
    "fresh (new_context [G, A, B] mem) 1 = Some junk'"
    using assms(2,3) by (simp_all add: new_context_def)
  show ?thesis
    unfolding MatrixAddGradOp_CPU_Compute_def MatrixAddGradOp_CPU_outputs_result c Let_def
    by (simp add: fill set_output_tensor_def)
qed

lemma huge_facts:
  "dense huge" "shape huge = [4294967296, 1, 1, 1]" "NumElements huge = 4294967296"
  "to_int (NumElements huge) = 0" "flat huge = replicate 4294967296 1"
  by (simp_all add: huge_def dense_def NumElements_def to_int_def)

lemma gradient_examples:
  "dense ones" "fits_int (NumElements ones)" "dense short" "fits_int (NumElements short)"
  "NumElements ones = 3" "NumElements short = 2" "shape ones = [1, 1, 1, 3]"
  by (simp_all add: ones_def short_def dense_def NumElements_def fits_int_def)

lemma gradient_of_huge:
  "MatrixAddGradOp_CPU_Compute (new_context [huge, A, B] stale)
   = set_output_tensor 1 \<lparr>shape = shape A, flat = replicate (NumElements A) 0\<rparr>
       (set_output_tensor 0 \<lparr>shape = shape A, flat = replicate (NumElements A) 0\<rparr>
         (new_context [huge, A, B] stale))"
  by (rule MatrixAddGradOp_CPU_Compute_no_iterations[where junk = "\<lambda>i. 7" and junk' = "\<lambda>i. 7"])
    (simp_all add: huge_def NumElements_def to_int_def stale_def)





text \<open>
  Claim C9. The CPU gradient kernel gives both outputs the shape of \<open>matrix_a\<close>
  (input 1) and does not depend on \<open>matrix_b\<close> (input 2) at all; its fill loop
  runs over the element count of \<open>G\<close> as an \<open>int\<close>, so that, for a dense \<open>G\<close>
  whose element count fits \<open>int\<close>, both allocations succeeding, every write stays
  inside the output buffers exactly when \<open>G\<close> has no more elements than
  \<open>matrix_a\<close>, and the loop runs past their end otherwise.
\<close>

theorem gradient_outputs_take_shape_of_matrix_a:
  assumes "dense G" and "fits_int (NumElements G)"
    and "mem 0 = Some junk0" and "mem 1 = Some junk1"
  shows "(\<exists>grad_A grad_B.
          outputs (MatrixAddGradOp_CPU_Compute (new_context [G, A, B] mem)) 0 = Some grad_A
        \<and> outputs (MatrixAddGradOp_CPU_Compute (new_context [G, A, B] mem)) 1 = Some grad_B
        \<and> shape grad_A = shape A \<and> shape grad_B = shape A)
      \<and> (status (MatrixAddGradOp_CPU_Compute (new_context [G, A, B] mem)) = None)
          = (NumElements G \<le> NumElements A)
      \<and> (status (MatrixAddGradOp_CPU_Compute (new_context [G, A, B] mem)) = Some OutOfBounds)
          = (NumElements A < NumElements G)
      \<and> outputs (MatrixAddGradOp_CPU_Compute (new_context [G, A, B'] mem))
          = outputs (MatrixAddGradOp_CPU_Compute (new_context [G, A, B] mem))
      \<and> status (MatrixAddGradOp_CPU_Compute (new_context [G, A, B'] mem))
          = status (MatrixAddGradOp_CPU_Compute (new_context [G, A, B] mem))"
proof -
  have B: "inputs (new_context [G, A, B] mem) = [G, A, B]"
    and B': "inputs (new_context [G, A, B'] mem) = [G, A, B']"
    by (simp_all add: new_context_def)
  show ?thesis
    unfolding MatrixAddGradOp_CPU_Compute_result[OF B assms(1,2)]
      MatrixAddGradOp_CPU_Compute_result[OF B' assms(1,2)]
    using assms(3,4)
    by (simp add: set_output_tensor_def new_context_def Let_def not_le)
qed

theorem gradient_outputs_take_shape_of_matrix_a_witness:
  "dense ones \<and> fits_int (NumElements ones)
   \<and> status (MatrixAddGradOp_CPU_Compute (new_context [ones, short, ones] stale))
      = Some OutOfBounds
   \<and> status (MatrixAddGradOp_CPU_Compute (new_context [short, ones, short] stale)) = None"
proof -
  have hyps: "dense ones" "fits_int (NumElements ones)" "dense short" "fits_int (NumElements short)"
    by (simp_all add: ones_def short_def dense_def NumElements_def fits_int_def)
  have mem: "stale 0 = Some (\<lambda>i. 7)" "stale 1 = Some (\<lambda>i. 7)"
    by (simp_all add: stale_def)
  have n: "NumElements short < NumElements ones"
    by (simp add: ones_def short_def NumElements_def)
  from gradient_outputs_take_shape_of_matrix_a[OF hyps(1,2) mem, of short ones ones]
    gradient_outputs_take_shape_of_matrix_a[OF hyps(3,4) mem, of ones short short]
  show ?thesis
    using hyps n by simp
qed

text \<open>
  The claim has the writes in bounds only when \<open>G\<close> has no more elements than
  \<open>matrix_a\<close>. A \<open>G\<close> of \<open>2 ^ 32\<close> elements has more than a \<open>matrix_a\<close> of
  three, and the kernel writes nothing at all: it ends without an error, both
  outputs zero.
\<close>

theorem gradient_outputs_take_shape_of_matrix_a_counterexample:
  "dense huge \<and> NumElements ones < NumElements huge
   \<and> status (MatrixAddGradOp_CPU_Compute (new_context [huge, ones, ones] stale)) = None
   \<and> outputs (MatrixAddGradOp_CPU_Compute (new_context [huge, ones, ones] stale)) 0
       = Some \<lparr>shape = [1, 1, 1, 3], flat = [0, 0, 0]\<rparr>
   \<and> outputs (MatrixAddGradOp_CPU_Compute (new_context [huge, ones, ones] stale)) 1
       = Some \<lparr>shape = [1, 1, 1, 3], flat = [0, 0, 0]\<rparr>"
  unfolding gradient_of_huge
  by (simp add: huge_facts gradient_examples set_output_tensor_def new_context_def
      numeral_3_eq_3)

text \<open>
  The CPU gradient kernel zeroes both output buffers before the fill loop starts,
  whatever the allocator handed out: each output comes from an allocation of its own
  (slots 0 and 1) and holds zeros when lines 186 to 195 are done.
\<close>

lemma cpu_gradient_zero_before_fill:
  assumes "inputs context = [G, A, B]"
    and "fresh context 0 = Some junk0" and "fresh context 1 = Some junk1"
  shows "\<exists>matrix_a_grad matrix_b_grad context'.
        MatrixAddGradOp_CPU_outputs context = Inr (matrix_a_grad, matrix_b_grad, context')
      \<and> flat matrix_a_grad = replicate (NumElements A) 0
      \<and> flat matrix_b_grad = replicate (NumElements A) 0
      \<and> outputs context' 0 = Some matrix_a_grad
      \<and> outputs context' 1 = Some matrix_b_grad"
  using assms
  by (simp add: MatrixAddGradOp_CPU_outputs_result Let_def set_output_tensor_def)

text \<open>
  Claim C4. The claim has both gradient paths zero their output buffers before the
  fill. The CPU kernel does (\<open>cpu_gradient_zero_before_fill\<close>); the GPU dispatcher
  allocates the two outputs and hands them to the launcher as they are. With an
  allocator whose memory holds stale sevens, the buffers the launcher receives hold
  sevens, not zeros.
\<close>

theorem gpu_gradient_buffers_not_zeroed:
  "\<exists>grad_matrix_a grad_matrix_b context'.
      MatrixAddGradOp_GPU_outputs (new_context [ones, ones, ones] stale)
        = Inr (grad_matrix_a, grad_matrix_b, context')
    \<and> flat grad_matrix_a = [7, 7, 7]
    \<and> flat grad_matrix_b = [7, 7, 7]"
  by (simp add: MatrixAddGradOp_GPU_outputs_def new_context_def ones_def stale_def
      allocate_output_def set_output_tensor_def Let_def upt_rec)


section \<open>Equivalence, determinism and failure\<close>















section \<open>Shape inference\<close>

lemma MatrixAdd_ShapeFn_result:
  "MatrixAdd_ShapeFn \<lparr>shape_input = [sa, sb], shape_output = so\<rparr> =
     (if length sa = 4 \<and> length sb = 4 \<and> sa = sb
      then Inr \<lparr>shape_input = [sa, sb], shape_output = so(0 \<mapsto> sa)\<rparr>
      else Inl ShapeMismatch)"
proof (cases "length sa = 4")
  case True
  then obtain B M N D where "sa = [B, M, N, D]"
    by (rule shape4_cases)
  then show ?thesis
    by (auto simp: MatrixAdd_ShapeFn_def WithRank_def Merge_def Dim_def MakeShape_def
        set_output_def list_all2_eq[symmetric])
next
  case False
  then show ?thesis
    by (simp add: MatrixAdd_ShapeFn_def WithRank_def)
qed

text \<open>
  Claim C3. The shape function of the forward operator fails with \<open>ShapeMismatch\<close> exactly
  when an input does not have 4 dimensions or the two shapes differ; when both have 4
  dimensions and are equal it succeeds and the inferred output shape is the input
  shape. On a failure the operator ends with that error before the kernel is entered:
  whatever the kernel is, no output slot holds a buffer.
\<close>

theorem shape_inference_contract:
  "(infer_shapes MatrixAdd_op [shape A, shape B] = Inl ShapeMismatch)
     = (length (shape A) \<noteq> 4 \<or> length (shape B) \<noteq> 4 \<or> shape A \<noteq> shape B)
   \<and> (length (shape A) = 4 \<and> length (shape B) = 4 \<and> shape A = shape B \<longrightarrow>
        (\<exists>c. infer_shapes MatrixAdd_op [shape A, shape B] = Inr c
           \<and> shape_output c 0 = Some (shape A)))
   \<and> (length (shape A) \<noteq> 4 \<or> length (shape B) \<noteq> 4 \<or> shape A \<noteq> shape B \<longrightarrow>
        (\<forall>Compute.
           status (run_op MatrixAdd_op Compute (new_context [A, B] mem)) = Some ShapeMismatch
         \<and> outputs (run_op MatrixAdd_op Compute (new_context [A, B] mem)) = (\<lambda>idx. None)))"
  by (auto simp: infer_shapes_def run_op_def MatrixAdd_op_def MatrixAdd_ShapeFn_result
      new_context_def)

theorem shape_inference_contract_witness:
  "infer_shapes MatrixAdd_op [[2, 3, 4, 5], [2, 3, 4, 6]] = Inl ShapeMismatch
   \<and> infer_shapes MatrixAdd_op [[2, 3, 4], [2, 3, 4]] = Inl ShapeMismatch
   \<and> (\<exists>c. infer_shapes MatrixAdd_op [[1, 1, 1, 3], [1, 1, 1, 3]] = Inr c
         \<and> shape_output c 0 = Some [1, 1, 1, 3])
   \<and> outputs (run_op MatrixAdd_op (MatrixAddOp_CPU_Compute add_bias_float (Finite (1 / 2)))
        (new_context [ones_f, short_f] stale_f)) = (\<lambda>idx. None)"
proof -
  have a: "infer_shapes MatrixAdd_op [[2, 3, 4, 5], [2, 3, 4, 6]] = Inl ShapeMismatch"
    using shape_inference_contract[of "\<lparr>shape = [2, 3, 4, 5], flat = []\<rparr> :: real Tensor"
        "\<lparr>shape = [2, 3, 4, 6], flat = []\<rparr>"]
    by simp
  have b: "infer_shapes MatrixAdd_op [[2, 3, 4], [2, 3, 4]] = Inl ShapeMismatch"
    using shape_inference_contract[of "\<lparr>shape = [2, 3, 4], flat = []\<rparr> :: real Tensor"
        "\<lparr>shape = [2, 3, 4], flat = []\<rparr>"]
    by simp
  have c: "\<exists>c. infer_shapes MatrixAdd_op [[1, 1, 1, 3], [1, 1, 1, 3]] = Inr c
         \<and> shape_output c 0 = Some [1, 1, 1, 3]"
    using shape_inference_contract[of ones ones]
    by (simp add: ones_def)
  have d: "outputs (run_op MatrixAdd_op (MatrixAddOp_CPU_Compute add_bias_float (Finite (1 / 2)))
        (new_context [ones_f, short_f] stale_f)) = (\<lambda>idx. None)"
    using shape_inference_contract[of ones_f short_f stale_f]
    by (simp add: ones_f_def short_f_def)
  from a b c d show ?thesis by simp
qed

text \<open>
  Claim C10. \<open>MatrixAddGrad\<close> is registered without a shape function: graph construction
  accepts every list of input shapes, of any ranks and dimensions, and the kernel is
  entered whatever the inputs are; the forward operator rejects inputs that are not
  of rank 4 or differ in shape.
\<close>

theorem gradient_shapes_unchecked:
  "shape_fn MatrixAddGrad_op = None
   \<and> (\<forall>ins. \<exists>c. infer_shapes MatrixAddGrad_op ins = Inr c)
   \<and> (\<forall>Compute context. run_op MatrixAddGrad_op Compute context = Compute context)
   \<and> infer_shapes MatrixAdd_op [[2, 3, 4], [2, 3, 4]] = Inl ShapeMismatch
   \<and> infer_shapes MatrixAdd_op [[2, 3, 4, 5], [2, 3, 4, 6]] = Inl ShapeMismatch"
  by (simp add: infer_shapes_def run_op_def MatrixAddGrad_op_def MatrixAdd_op_def
      MatrixAdd_ShapeFn_result)

theorem gradient_shapes_unchecked_witness:
  "(\<exists>c. infer_shapes MatrixAddGrad_op [[2, 3], [4], [5, 6, 7, 8, 9]] = Inr c)
   \<and> run_op MatrixAddGrad_op MatrixAddGradOp_CPU_Compute (new_context [short, ones, short] stale)
     = MatrixAddGradOp_CPU_Compute (new_context [short, ones, short] stale)"
proof -
  from gradient_shapes_unchecked
  have accepted: "\<exists>c. infer_shapes MatrixAddGrad_op ins = Inr c"
    and entered: "run_op MatrixAddGrad_op Compute c0 = Compute c0"
    for ins and Compute :: "real OpKernelContext \<Rightarrow> real OpKernelContext" and c0
    by blast+
  from accepted[of "[[2, 3], [4], [5, 6, 7, 8, 9]]"]
    entered[of MatrixAddGradOp_CPU_Compute "new_context [short, ones, short] stale"]
  show ?thesis by simp
qed

end
